theory Spec2Isabelle
  imports Main
begin

section \<open>Values of the host language\<close>

text \<open>
  The bridge of \<^verbatim>\<open>createEffectQuery\<close> handles three kinds of untyped values: the
  properties of a typed failure, the defect a computation died with, and the value
  \<^verbatim>\<open>Cause.squash\<close> hands to \<^verbatim>\<open>QueryDefect\<close>. A small datatype of values covers
  the first two.
\<close>

datatype jsvalue =
    JSUndefined
  | JSNull
  | JSBoolean bool
  | JSNumber int
  | JSString string
  | JSObject "(string \<times> jsvalue) list"

text \<open>
  The \<^verbatim>\<open>TypeError\<close> the engine throws when a value that is no function is called, or
  when a method of \<^verbatim>\<open>Object.prototype\<close> is called with no \<^verbatim>\<open>this\<close>. Its message
  differs from engine to engine and is left out.
\<close>

definition TypeError :: jsvalue where
  "TypeError = JSObject [(''name'', JSString ''TypeError'')]"

text \<open>
  \<^verbatim>\<open>type EffectfulError<Tag extends string = string> = { _tag: Tag }\<close>: a typed failure
  is an object with a string discriminant. \<open>tag\<close> is the \<^verbatim>\<open>_tag\<close> property,
  \<open>props\<close> lists the other properties that can be read on the value.
\<close>

record EffectfulError =
  tag :: string
  props :: "(string \<times> jsvalue) list"

text \<open>\<^verbatim>\<open>boolean | string\<close>, the type of \<^verbatim>\<open>orElse\<close> and of \<^verbatim>\<open>toastifyDefects\<close>.\<close>

datatype BoolOrString = BoolVal bool | StringVal string

text \<open>
  \<^verbatim>\<open>hasStringMessage\<close> composes \<^verbatim>\<open>Predicate.isRecord\<close>,
  \<^verbatim>\<open>Predicate.hasProperty("message")\<close> and \<^verbatim>\<open>Predicate.struct({ message: Predicate.isString })\<close>.
  A typed failure is a record already, so what is left is: the property \<^verbatim>\<open>message\<close>
  is there and it is a string. \<open>errorMessage\<close> is \<^verbatim>\<open>error.message\<close> narrowed by that
  test.
\<close>

definition errorMessage :: "EffectfulError \<Rightarrow> string option" where
  "errorMessage error =
     (case map_of (props error) ''message'' of
        Some (JSString m) \<Rightarrow> Some m
      | _ \<Rightarrow> None)"

definition hasStringMessage :: "EffectfulError \<Rightarrow> bool" where
  "hasStringMessage error = (errorMessage error \<noteq> None)"

definition DEFAULT_ERROR_MESSAGE :: string where
  "DEFAULT_ERROR_MESSAGE = ''Something went wrong''"

definition DEFAULT_DEFECT_MESSAGE :: string where
  "DEFAULT_DEFECT_MESSAGE = ''An unexpected error occurred''"

section \<open>Causes and exits of the effect library\<close>

text \<open>
  The cause algebra of \<^verbatim>\<open>effect/Cause\<close>: a failure is a tree whose leaves are typed
  failures, defects and interruptions. A fiber id is \<^verbatim>\<open>None\<close>, a runtime fiber with
  its number, or a composite.
\<close>

datatype FiberId = FiberNone | FiberRuntime nat | FiberComposite FiberId FiberId

datatype 'e Cause =
    Empty
  | Fail 'e
  | Die jsvalue
  | Interrupt FiberId
  | Sequential "'e Cause" "'e Cause"
  | Parallel "'e Cause" "'e Cause"

text \<open>
  How an effect leaves the fiber that runs it. \<open>Success\<close> and \<open>Failure\<close> are the
  two exits of \<^verbatim>\<open>effect/Exit\<close>, in a fiber that has not been interrupted.
  \<open>Interrupted c ic\<close> is a failure with cause \<open>c\<close> in a fiber that has been
  interrupted while interruptible; \<open>ic\<close> is the cause the fiber keeps of the interrupt
  signals it got (\<^verbatim>\<open>getInterruptedCause()\<close>). To \<^verbatim>\<open>Exit.match\<close> it is a failure with
  cause \<open>c\<close> like any other. To the runtime it is the state in which failure handlers
  are not run: the fiber loop, on a failure, calls the handler of a
  \<^verbatim>\<open>matchCauseEffect\<close> frame only if
  \<^verbatim>\<open>!(interruptible(flags) && isInterrupted())\<close>, and otherwise goes on with
  \<^verbatim>\<open>stripFailures(cause)\<close>. A fiber found interrupted at an interruptible point fails
  at once with its interrupted cause, so a success is never delivered by an interrupted
  fiber. What counts is the state of the fiber, not the cause: \<open>Failure\<close> may carry a
  cause with \<open>Interrupt\<close> nodes (a joined child fiber that was interrupted,
  \<^verbatim>\<open>Effect.failCause(Cause.interrupt(id))\<close>), and then the handlers do run.
\<close>

datatype ('a, 'e) Exit =
    Success 'a
  | Failure "'e Cause"
  | Interrupted "'e Cause" "'e Cause"

text \<open>\<^verbatim>\<open>Cause.isFailType\<close>: the root node is a \<^verbatim>\<open>Fail\<close>.\<close>

fun isFailType :: "'e Cause \<Rightarrow> bool" where
  "isFailType (Fail _) = True"
| "isFailType _ = False"

text \<open>\<^verbatim>\<open>Cause.stripFailures\<close>: every typed failure of the tree becomes \<^verbatim>\<open>Empty\<close>.\<close>

fun stripFailures :: "'e Cause \<Rightarrow> 'e Cause" where
  "stripFailures (Fail _) = Empty"
| "stripFailures (Sequential l r) = Sequential (stripFailures l) (stripFailures r)"
| "stripFailures (Parallel l r) = Parallel (stripFailures l) (stripFailures r)"
| "stripFailures c = c"

text \<open>
  \<^verbatim>\<open>Cause.failureOption\<close>: the first typed failure of the tree, left to right.
\<close>

fun failureOption :: "'e Cause \<Rightarrow> 'e option" where
  "failureOption (Fail e) = Some e"
| "failureOption (Sequential l r) =
     (case failureOption l of Some e \<Rightarrow> Some e | None \<Rightarrow> failureOption r)"
| "failureOption (Parallel l r) =
     (case failureOption l of Some e \<Rightarrow> Some e | None \<Rightarrow> failureOption r)"
| "failureOption _ = None"

text \<open>\<^verbatim>\<open>Cause.defects\<close>: the defects of the tree, left to right.\<close>

fun defects :: "'e Cause \<Rightarrow> jsvalue list" where
  "defects (Die d) = [d]"
| "defects (Sequential l r) = defects l @ defects r"
| "defects (Parallel l r) = defects l @ defects r"
| "defects _ = []"

text \<open>\<^verbatim>\<open>FiberId.ids\<close> and \<^verbatim>\<open>Cause.interruptors\<close>, the latter flattened to fiber numbers.\<close>

fun ids :: "FiberId \<Rightarrow> nat set" where
  "ids FiberNone = {}"
| "ids (FiberRuntime n) = {n}"
| "ids (FiberComposite l r) = ids l \<union> ids r"

fun interruptors :: "'e Cause \<Rightarrow> nat set" where
  "interruptors (Interrupt f) = ids f"
| "interruptors (Sequential l r) = interruptors l \<union> interruptors r"
| "interruptors (Parallel l r) = interruptors l \<union> interruptors r"
| "interruptors _ = {}"

text \<open>
  \<^verbatim>\<open>Cause.squash\<close> returns \<^verbatim>\<open>unknown\<close>: the first typed failure if there is one,
  else the first defect, else a new \<^verbatim>\<open>InterruptedException\<close> whose message lists the
  interrupting fibers.
\<close>

datatype 'e Squashed =
    SquashedError 'e
  | SquashedDefect jsvalue
  | InterruptedException "nat set"

definition squash :: "'e Cause \<Rightarrow> 'e Squashed" where
  "squash cause =
     (case failureOption cause of
        Some e \<Rightarrow> SquashedError e
      | None \<Rightarrow>
          (case defects cause of
             d # _ \<Rightarrow> SquashedDefect d
           | [] \<Rightarrow> InterruptedException (interruptors cause)))"

section \<open>Effects as state transformers over the trace of observable calls\<close>

text \<open>
  What the bridge does to the outside world is: calls of the notification port
  (\<^verbatim>\<open>toast.error\<close>, \<^verbatim>\<open>toast.success\<close>), calls of the logger (\<^verbatim>\<open>Effect.logError\<close>) and
  the opening and closing of a tracing span. The world is the list of these calls in
  the order they were made. An effect, when the runtime runs it, takes the trace so far
  and gives its exit and the extended trace. \<open>ToastErrorObject\<close> is a call of
  \<^verbatim>\<open>toast.error\<close> whose argument is not a string but a failure object.
\<close>

datatype 'e Event =
    ToastError string
  | ToastErrorObject 'e
  | ToastSuccess string
  | LogError "'e Cause"
  | SpanStarted string
  | SpanEnded string

type_synonym 'e Trace = "'e Event list"

type_synonym ('a, 'e) Effect = "'e Trace \<Rightarrow> ('a, 'e) Exit \<times> 'e Trace"

definition succeed :: "'a \<Rightarrow> ('a, 'e) Effect" where
  "succeed a = (\<lambda>s. (Success a, s))"

definition failCause :: "'e Cause \<Rightarrow> ('a, 'e) Effect" where
  "failCause c = (\<lambda>s. (Failure c, s))"

text \<open>
  \<^verbatim>\<open>Effect.sync\<close> of a thunk that acts on the world: the thunk returns (\<open>Inr\<close>) or
  throws (\<open>Inl\<close>), and what it throws becomes a defect.
\<close>

definition sync :: "('e Trace \<Rightarrow> (jsvalue + 'a) \<times> 'e Trace) \<Rightarrow> ('a, 'e) Effect" where
  "sync thunk =
     (\<lambda>s. case thunk s of
             (Inl thrown, s') \<Rightarrow> (Failure (Die thrown), s')
           | (Inr a, s') \<Rightarrow> (Success a, s'))"

definition zipRight :: "('a, 'e) Effect \<Rightarrow> ('b, 'e) Effect \<Rightarrow> ('b, 'e) Effect" where
  "zipRight first second =
     (\<lambda>s. case first s of
             (Success _, s') \<Rightarrow> second s'
           | (Failure c, s') \<Rightarrow> (Failure c, s')
           | (Interrupted c ic, s') \<Rightarrow> (Interrupted c ic, s'))"

text \<open>
  \<^verbatim>\<open>matchCauseEffect\<close>, on which \<^verbatim>\<open>tapError\<close> and \<^verbatim>\<open>tapErrorCause\<close> are built. In an
  interrupted fiber the failure handler is skipped and the typed failures are stripped
  from the cause.
\<close>

definition matchCauseEffect ::
  "('a, 'e) Effect \<Rightarrow> ('e Cause \<Rightarrow> ('b, 'e) Effect) \<Rightarrow> ('a \<Rightarrow> ('b, 'e) Effect) \<Rightarrow> ('b, 'e) Effect"
where
  "matchCauseEffect self onFailure onSuccess =
     (\<lambda>s. case self s of
             (Success a, s') \<Rightarrow> onSuccess a s'
           | (Failure c, s') \<Rightarrow> onFailure c s'
           | (Interrupted c ic, s') \<Rightarrow> (Interrupted (stripFailures c) ic, s'))"

text \<open>
  \<^verbatim>\<open>Effect.tapError\<close>: on a failure whose cause holds a typed failure (found by
  \<^verbatim>\<open>failureOrCause\<close>, that is \<open>failureOption\<close>), run the observer on it, then fail
  with the same cause; if the observer fails, fail with its cause. Being a
  \<^verbatim>\<open>matchCauseEffect\<close>, it does nothing in an interrupted fiber, and so does
  \<^verbatim>\<open>Effect.tapErrorCause\<close> below.
\<close>

definition tapError :: "('e \<Rightarrow> (unit, 'e) Effect) \<Rightarrow> ('a, 'e) Effect \<Rightarrow> ('a, 'e) Effect" where
  "tapError f self =
     matchCauseEffect self
       (\<lambda>cause. case failureOption cause of
                  Some e \<Rightarrow> zipRight (f e) (failCause cause)
                | None \<Rightarrow> failCause cause)
       succeed"

text \<open>
  \<^verbatim>\<open>Effect.tap\<close> with a callback that returns no effect: the callback runs on the success
  value, which is kept.
\<close>

definition tap :: "('a \<Rightarrow> 'e Trace \<Rightarrow> 'e Trace) \<Rightarrow> ('a, 'e) Effect \<Rightarrow> ('a, 'e) Effect" where
  "tap f self =
     (\<lambda>s. case self s of
             (Success a, s') \<Rightarrow> (Success a, f a s')
           | (Failure c, s') \<Rightarrow> (Failure c, s')
           | (Interrupted c ic, s') \<Rightarrow> (Interrupted c ic, s'))"

definition tapErrorCause ::
  "('e Cause \<Rightarrow> (unit, 'e) Effect) \<Rightarrow> ('a, 'e) Effect \<Rightarrow> ('a, 'e) Effect"
where
  "tapErrorCause f self =
     matchCauseEffect self (\<lambda>cause. zipRight (f cause) (failCause cause)) succeed"

definition logError :: "'e Cause \<Rightarrow> (unit, 'e) Effect" where
  "logError cause = (\<lambda>s. (Success (), s @ [LogError cause]))"

text \<open>
  \<^verbatim>\<open>Effect.withSpan\<close>: the span is open while the effect runs and is ended with
  \<^verbatim>\<open>onExit\<close>, which runs its finalizer inside \<^verbatim>\<open>uninterruptibleMask\<close>, so also in
  an interrupted fiber. The exit is kept; when an interrupted fiber leaves the mask with a
  failure, the runtime fails with \<^verbatim>\<open>sequential(cause, getInterruptedCause())\<close>.
\<close>

definition withSpan :: "string \<Rightarrow> ('a, 'e) Effect \<Rightarrow> ('a, 'e) Effect" where
  "withSpan name self =
     (\<lambda>s. case self (s @ [SpanStarted name]) of
             (Interrupted c ic, s') \<Rightarrow> (Interrupted (Sequential c ic) ic, s' @ [SpanEnded name])
           | (exit, s') \<Rightarrow> (exit, s' @ [SpanEnded name]))"

text \<open>
  A computation during which the fiber is interrupted by the fiber \<open>by\<close>: it fails
  with the cause of the interrupt signal.
\<close>

definition interruptedBy :: "FiberId \<Rightarrow> ('a, 'e) Effect" where
  "interruptedBy by = (\<lambda>s. (Interrupted (Interrupt by) (Interrupt by), s))"

text \<open>
  \<^verbatim>\<open>runtime.runPromiseExit\<close>: the promise of the exit; it never rejects. A promise is
  modelled by the value it settles with and the trace at that moment.
\<close>

definition runPromiseExit :: "('a, 'e) Effect \<Rightarrow> 'e Trace \<Rightarrow> ('a, 'e) Exit \<times> 'e Trace" where
  "runPromiseExit effect s = effect s"

text \<open>The notification port, \<^verbatim>\<open>useToastConfig().toast\<close>.\<close>

definition toast_error :: "string \<Rightarrow> 'e Trace \<Rightarrow> 'e Trace" where
  "toast_error m s = s @ [ToastError m]"

definition toast_error_object :: "'e \<Rightarrow> 'e Trace \<Rightarrow> 'e Trace" where
  "toast_error_object v s = s @ [ToastErrorObject v]"

definition toast_success :: "string \<Rightarrow> 'e Trace \<Rightarrow> 'e Trace" where
  "toast_success m s = s @ [ToastSuccess m]"

section \<open>The bridge: \<^verbatim>\<open>useRunner\<close>\<close>

text \<open>
  \<^verbatim>\<open>ToastifyErrorsConfig\<close>: the key \<^verbatim>\<open>orElse\<close> and, under every other key, a handler
  from the failure to a message. The destructuring
  \<^verbatim>\<open>const { orElse = "extractMessage", ...tagConfigs } = toastifyErrors\<close> splits the object
  exactly so; \<open>None\<close> is \<^verbatim>\<open>undefined\<close>. \<open>tagConfigs\<close> holds the own properties of
  the rest object: the handlers the caller wrote, by tag. A caller's handler is a total
  function to a string: one that throws is a fault of the caller's code and not modelled.
\<close>

record ToastifyErrorsConfig =
  orElse :: "BoolOrString option"
  tagConfigs :: "string \<rightharpoonup> (EffectfulError \<Rightarrow> string)"

record 'a UseRunnerOpts =
  toastifyDefects :: "BoolOrString option"
  toastifyErrors :: "ToastifyErrorsConfig option"
  toastifySuccess :: "('a \<Rightarrow> string) option"

text \<open>
  \<^verbatim>\<open>tagConfigs[errorTag]\<close> (source line 94) is a property read on a plain object: it
  finds the caller's handler under that key or, failing that, the member of
  \<^verbatim>\<open>Object.prototype\<close> of that name.
\<close>

definition objectPrototypeMembers :: "string list" where
  "objectPrototypeMembers =
     [''constructor'', ''hasOwnProperty'', ''isPrototypeOf'', ''propertyIsEnumerable'',
      ''toLocaleString'', ''toString'', ''valueOf'', ''__proto__'',
      ''__defineGetter__'', ''__defineSetter__'', ''__lookupGetter__'', ''__lookupSetter__'']"

datatype TagHandler = CallerHandler "EffectfulError \<Rightarrow> string" | InheritedMember string

definition lookupTag :: "(string \<rightharpoonup> (EffectfulError \<Rightarrow> string)) \<Rightarrow> string \<Rightarrow> TagHandler option" where
  "lookupTag configs key =
     (case configs key of
        Some handler \<Rightarrow> Some (CallerHandler handler)
      | None \<Rightarrow>
          if key \<in> set objectPrototypeMembers then Some (InheritedMember key) else None)"

text \<open>
  \<^verbatim>\<open>tagHandler(error)\<close> (source line 98), a plain call in module code, so with
  \<^verbatim>\<open>this\<close> undefined. \<^verbatim>\<open>Object.prototype.toString\<close> then returns
  \<^verbatim>\<open>[object Undefined]\<close>; \<^verbatim>\<open>constructor\<close> is \<^verbatim>\<open>Object\<close>, which returns the object it
  is given; \<^verbatim>\<open>__proto__\<close> is \<^verbatim>\<open>Object.prototype\<close> itself, no function; the other
  members convert \<^verbatim>\<open>this\<close> to an object first. The last two kinds throw a
  \<^verbatim>\<open>TypeError\<close>.
\<close>

datatype CallResult = Returned string | ReturnedObject EffectfulError | Thrown jsvalue

definition callTagHandler :: "TagHandler \<Rightarrow> EffectfulError \<Rightarrow> CallResult" where
  "callTagHandler tagHandler error =
     (case tagHandler of
        CallerHandler handler \<Rightarrow> Returned (handler error)
      | InheritedMember name \<Rightarrow>
          if name = ''toString'' then Returned ''[object Undefined]''
          else if name = ''constructor'' then ReturnedObject error
          else Thrown TypeError)"

text \<open>The call on line 98 throws: there is a tag handler and calling it throws.\<close>

definition tagHandlerThrows :: "ToastifyErrorsConfig \<Rightarrow> EffectfulError \<Rightarrow> bool" where
  "tagHandlerThrows cfg error =
     (case lookupTag (tagConfigs cfg) (tag error) of
        Some tagHandler \<Rightarrow>
          (case callTagHandler tagHandler error of Thrown _ \<Rightarrow> True | _ \<Rightarrow> False)
      | None \<Rightarrow> False)"

text \<open>
  What the promise of the wrapped function settles with. It rejects with
  \<^verbatim>\<open>cause.error\<close>, of type \<^verbatim>\<open>E\<close>, or with a \<^verbatim>\<open>QueryDefect\<close>, the tagged error whose
  only field is \<^verbatim>\<open>cause: unknown\<close>.
\<close>

datatype 'e Rejection = TypedFailure 'e | QueryDefect "'e Squashed"

datatype ('a, 'e) Settled = Resolved 'a | Rejected "'e Rejection"

text \<open>
  The callback of \<^verbatim>\<open>Effect.tapError\<close> (source lines 91 to 117). The three branches
  under \<^verbatim>\<open>orElse !== false\<close> are the source's \<^verbatim>\<open>if\<close>, \<^verbatim>\<open>else if (typeof orElse === "string")\<close>
  and \<^verbatim>\<open>else\<close>. In the first one \<^verbatim>\<open>error.message\<close> is a string, by
  \<open>hasStringMessage\<close>, so the inner \<open>None\<close> case is never taken.
\<close>

definition onTypedError :: "ToastifyErrorsConfig \<Rightarrow> EffectfulError \<Rightarrow> (unit, EffectfulError) Effect" where
  "onTypedError cfg error =
     sync (\<lambda>s.
       let orElse' = (case orElse cfg of None \<Rightarrow> StringVal ''extractMessage'' | Some p \<Rightarrow> p);
           errorTag = tag error
       in case lookupTag (tagConfigs cfg) errorTag of
            Some tagHandler \<Rightarrow>
              (case callTagHandler tagHandler error of
                 Returned message \<Rightarrow> (Inr (), toast_error message s)
               | ReturnedObject v \<Rightarrow> (Inr (), toast_error_object v s)
               | Thrown thrown \<Rightarrow> (Inl thrown, s))
          | None \<Rightarrow>
              (Inr (),
               if orElse' \<noteq> BoolVal False then
                 (if orElse' = StringVal ''extractMessage'' \<and> hasStringMessage error then
                    (case errorMessage error of Some m \<Rightarrow> toast_error m s | None \<Rightarrow> s)
                  else
                    (case orElse' of
                       StringVal str \<Rightarrow> toast_error str s
                     | BoolVal _ \<Rightarrow> toast_error DEFAULT_ERROR_MESSAGE s))
               else s))"

text \<open>The callback of \<^verbatim>\<open>Effect.tap\<close> (source lines 118 to 122).\<close>

definition onSuccessValue :: "('a \<Rightarrow> string) option \<Rightarrow> 'a \<Rightarrow> 'e Trace \<Rightarrow> 'e Trace" where
  "onSuccessValue toastifySuccess' result s =
     (case toastifySuccess' of
        Some f \<Rightarrow> toast_success (f result) s
      | None \<Rightarrow> s)"

text \<open>
  The handler given to \<^verbatim>\<open>.then\<close>, \<^verbatim>\<open>Exit.match\<close> (source lines 128 to 145).
  \<open>onFailure\<close> is its \<^verbatim>\<open>onFailure\<close> branch: the pattern \<open>Fail error\<close> is
  \<^verbatim>\<open>Cause.isFailType(cause)\<close> together with the read of \<^verbatim>\<open>cause.error\<close>; a
  \<^verbatim>\<open>throw\<close> in the handler rejects the promise. The failure of an interrupted fiber
  reaches \<^verbatim>\<open>onFailure\<close> with its cause as every failure does.
\<close>

definition onFailure ::
  "BoolOrString \<Rightarrow> EffectfulError Cause \<Rightarrow> EffectfulError Trace
     \<Rightarrow> ('a, EffectfulError) Settled \<times> EffectfulError Trace"
where
  "onFailure toastifyDefects' cause s =
     (case cause of
        Fail error \<Rightarrow> (Rejected (TypedFailure error), s)
      | _ \<Rightarrow>
          (let s' =
             (if toastifyDefects' \<noteq> BoolVal False then
                toast_error
                  (case toastifyDefects' of
                     StringVal str \<Rightarrow> str
                   | BoolVal _ \<Rightarrow> DEFAULT_DEFECT_MESSAGE) s
              else s)
           in (Rejected (QueryDefect (squash cause)), s')))"

definition settle ::
  "BoolOrString \<Rightarrow> ('a, EffectfulError) Exit \<Rightarrow> EffectfulError Trace
     \<Rightarrow> ('a, EffectfulError) Settled \<times> EffectfulError Trace"
where
  "settle toastifyDefects' exit s =
     (case exit of
        Success v \<Rightarrow> (Resolved v, s)
      | Failure cause \<Rightarrow> onFailure toastifyDefects' cause s
      | Interrupted cause ic \<Rightarrow> onFailure toastifyDefects' cause s)"

definition emptyConfig :: ToastifyErrorsConfig where
  "emptyConfig = \<lparr>orElse = None, tagConfigs = Map.empty\<rparr>"

definition useRunner ::
  "('a, 'z) UseRunnerOpts_scheme \<Rightarrow> string \<Rightarrow> ('a, EffectfulError) Effect \<Rightarrow> EffectfulError Trace
     \<Rightarrow> ('a, EffectfulError) Settled \<times> EffectfulError Trace"
where
  "useRunner opts span self s =
     (let toastifyDefects' = (case toastifyDefects opts of None \<Rightarrow> BoolVal True | Some d \<Rightarrow> d);
          toastifyErrors' = (case toastifyErrors opts of None \<Rightarrow> emptyConfig | Some c \<Rightarrow> c)
      in case runPromiseExit
                (withSpan span
                  (tapErrorCause logError
                    (tap (onSuccessValue (toastifySuccess opts))
                      (tapError (onTypedError toastifyErrors') self)))) s
         of (exit, s') \<Rightarrow> settle toastifyDefects' exit s')"

section \<open>The hook adapters\<close>

text \<open>
  \<^verbatim>\<open>queryFn\<close> is an effectful query function or the fetching library's
  \<^verbatim>\<open>skipToken\<close>.
\<close>

datatype 'f QueryFnOrSkip = skipToken | QueryFunction 'f

text \<open>
  The options object of the single-fetch adapter. It carries the fields of
  \<^verbatim>\<open>UseRunnerOpts\<close> (an intersection type in the source, a record extension here), the
  key \<^verbatim>\<open>[spanName, variables?]\<close>, the query function, the two durations,
  \<^verbatim>\<open>throwOnError\<close> and the other options of the fetching library, which pass through
  untouched (\<open>passThrough\<close>). The same record, at other types, is the object handed to
  \<^verbatim>\<open>useQuery\<close>: there the query function returns a promise, the durations are
  milliseconds and \<^verbatim>\<open>throwOnError\<close> is a boolean.
\<close>

record ('a, 'k, 'f, 'd, 't, 'o) QueryOptions = "'a UseRunnerOpts" +
  queryKey :: "string \<times> 'k"
  queryFn :: "'f QueryFnOrSkip"
  staleTime :: "'d option"
  gcTime :: "'d option"
  throwOnError :: 't
  passThrough :: 'o

text \<open>A promise-returning function as the fetching library sees it.\<close>

type_synonym ('c, 'a) PromiseFn =
  "'c \<Rightarrow> EffectfulError Trace \<Rightarrow> ('a, EffectfulError) Settled \<times> EffectfulError Trace"

text \<open>
  \<^verbatim>\<open>useEffectQuery\<close>. \<^verbatim>\<open>Duration.toMillis\<close> is a function of the effect library and
  is taken as the parameter \<open>toMillis\<close>. The wrapped \<^verbatim>\<open>queryFn\<close> of the source casts
  \<^verbatim>\<open>options.queryFn\<close> to a function and is handed over only when
  \<^verbatim>\<open>options.queryFn === skipToken\<close> is false; the case distinction below is that
  conditional.
\<close>

definition useEffectQuery ::
  "('d \<Rightarrow> 'm)
     \<Rightarrow> ('a, 'k, 'c \<Rightarrow> ('a, EffectfulError) Effect, 'd, 't, 'o) QueryOptions
     \<Rightarrow> ('a, 'k, ('c, 'a) PromiseFn, 'm, bool, 'o) QueryOptions"
where
  "useEffectQuery toMillis options =
     (let effectRunner = useRunner options;
          spanName = fst (queryKey options)
      in \<lparr>toastifyDefects = toastifyDefects options,
          toastifyErrors = toastifyErrors options,
          toastifySuccess = toastifySuccess options,
          queryKey = queryKey options,
          queryFn =
            (case queryFn options of
               skipToken \<Rightarrow> skipToken
             | QueryFunction f \<Rightarrow> QueryFunction (\<lambda>context. effectRunner spanName (f context))),
          staleTime = map_option toMillis (staleTime options),
          gcTime = map_option toMillis (gcTime options),
          throwOnError = False,
          passThrough = passThrough options\<rparr>)"

text \<open>
  The options of the paginated-fetch adapter add the page parameters; they are handed
  to \<^verbatim>\<open>useInfiniteQuery\<close> as they are.
\<close>

record ('a, 'k, 'f, 'd, 't, 'o, 'p, 'n, 'q) InfiniteQueryOptions =
  "('a, 'k, 'f, 'd, 't, 'o) QueryOptions" +
  getNextPageParam :: 'n
  getPreviousPageParam :: "'q option"
  initialPageParam :: 'p

definition useEffectInfiniteQuery ::
  "('d \<Rightarrow> 'm)
     \<Rightarrow> ('a, 'k, 'c \<Rightarrow> ('a, EffectfulError) Effect, 'd, 't, 'o, 'p, 'n, 'q) InfiniteQueryOptions
     \<Rightarrow> ('a, 'k, ('c, 'a) PromiseFn, 'm, bool, 'o, 'p, 'n, 'q) InfiniteQueryOptions"
where
  "useEffectInfiniteQuery toMillis options =
     (let effectRunner = useRunner options;
          spanName = fst (queryKey options);
          effectfulQueryFn = queryFn options
      in \<lparr>toastifyDefects = toastifyDefects options,
          toastifyErrors = toastifyErrors options,
          toastifySuccess = toastifySuccess options,
          queryKey = queryKey options,
          queryFn =
            (case effectfulQueryFn of
               skipToken \<Rightarrow> skipToken
             | QueryFunction f \<Rightarrow> QueryFunction (\<lambda>context. effectRunner spanName (f context))),
          staleTime = map_option toMillis (staleTime options),
          gcTime = map_option toMillis (gcTime options),
          throwOnError = False,
          passThrough = passThrough options,
          getNextPageParam = getNextPageParam options,
          getPreviousPageParam = getPreviousPageParam options,
          initialPageParam = initialPageParam options\<rparr>)"

text \<open>
  The fetching library is an external collaborator. What the adapters rely on is its
  contract for one fetch attempt: a query whose \<^verbatim>\<open>queryFn\<close> is \<^verbatim>\<open>skipToken\<close> is
  disabled and nothing is called; otherwise the library calls the function it was given
  with the fetch context and waits for the promise.
\<close>

definition fetchAttempt ::
  "('a, 'k, ('c, 'a) PromiseFn, 'm, bool, 'o, 'z) QueryOptions_scheme \<Rightarrow> 'c \<Rightarrow> EffectfulError Trace
     \<Rightarrow> ('a, EffectfulError) Settled option \<times> EffectfulError Trace"
where
  "fetchAttempt forwarded context s =
     (case queryFn forwarded of
        skipToken \<Rightarrow> (None, s)
      | QueryFunction f \<Rightarrow> (case f context s of (result, s') \<Rightarrow> (Some result, s')))"

text \<open>
  The events of a trace that are calls of the notification port, and the outcomes that
  \<^verbatim>\<open>Exit.match\<close> sends past the \<^verbatim>\<open>Cause.isFailType\<close> test when they reach it
  unchanged: the defect outcomes.
\<close>

fun isNotification :: "'e Event \<Rightarrow> bool" where
  "isNotification (ToastError _) = True"
| "isNotification (ToastErrorObject _) = True"
| "isNotification (ToastSuccess _) = True"
| "isNotification _ = False"

fun isDefectOutcome :: "('a, 'e) Exit \<Rightarrow> bool" where
  "isDefectOutcome (Success _) = False"
| "isDefectOutcome (Failure c) = (\<not> isFailType c)"
| "isDefectOutcome (Interrupted _ _) = True"

section \<open>What one run of the bridge does\<close>

lemma failureOption_stripFailures [simp]: "failureOption (stripFailures c) = None"
  by (induction c) auto

lemma defects_stripFailures [simp]: "defects (stripFailures c) = defects c"
  by (induction c) auto

lemma interruptors_stripFailures [simp]: "interruptors (stripFailures c) = interruptors c"
  by (induction c) auto

lemma stripFailures_idem [simp]: "stripFailures (stripFailures c) = stripFailures c"
  by (induction c) auto

lemma failureOption_None_not_Fail: "failureOption c = None \<Longrightarrow> \<not> isFailType c"
  by (cases c) auto

lemma isFailType_failureOption: "isFailType c \<Longrightarrow> \<exists>e. c = Fail e \<and> failureOption c = Some e"
  by (cases c) auto

lemma onTypedError_fst:
  "fst (onTypedError cfg e s) =
     (if tagHandlerThrows cfg e then Failure (Die TypeError) else Success ())"
  by (simp add: onTypedError_def sync_def tagHandlerThrows_def callTagHandler_def Let_def
      split: option.splits CallResult.splits TagHandler.splits)

lemma onTypedError_snd: "snd (onTypedError cfg e s) = s @ snd (onTypedError cfg e [])"
  by (simp add: onTypedError_def sync_def toast_error_def toast_error_object_def Let_def
      split: option.splits CallResult.splits BoolOrString.splits)

lemma onTypedError_notifications: "list_all isNotification (snd (onTypedError cfg e []))"
  by (simp add: onTypedError_def sync_def toast_error_def toast_error_object_def Let_def
      split: option.splits CallResult.splits BoolOrString.splits)

lemma onTypedError_throws:
  "tagHandlerThrows cfg e \<Longrightarrow> onTypedError cfg e s = (Failure (Die TypeError), s)"
  by (simp add: onTypedError_def sync_def tagHandlerThrows_def callTagHandler_def Let_def
      split: option.splits CallResult.splits TagHandler.splits if_splits)

lemma onTypedError_handler:
  assumes "tagConfigs cfg (tag e) = Some h"
  shows "onTypedError cfg e s = (Success (), s @ [ToastError (h e)])"
  using assms
  by (simp add: onTypedError_def sync_def lookupTag_def callTagHandler_def toast_error_def Let_def)

lemma onTypedError_fallback:
  assumes "lookupTag (tagConfigs cfg) (tag e) = None"
  shows "onTypedError cfg e s =
           (Success (),
            s @ (case orElse cfg of
                   Some (BoolVal False) \<Rightarrow> []
                 | Some (BoolVal True) \<Rightarrow> [ToastError DEFAULT_ERROR_MESSAGE]
                 | Some (StringVal str) \<Rightarrow>
                     (if str = ''extractMessage'' then
                        (case errorMessage e of Some m \<Rightarrow> [ToastError m] | None \<Rightarrow> [ToastError str])
                      else [ToastError str])
                 | None \<Rightarrow>
                     (case errorMessage e of
                        Some m \<Rightarrow> [ToastError m]
                      | None \<Rightarrow> [ToastError ''extractMessage''])))"
  using assms
  by (simp add: onTypedError_def sync_def toast_error_def hasStringMessage_def Let_def
      split: option.splits BoolOrString.splits bool.splits)

lemma caller_handler_does_not_throw:
  "tagConfigs cfg (tag e) = Some h \<Longrightarrow> \<not> tagHandlerThrows cfg e"
  by (simp add: tagHandlerThrows_def lookupTag_def callTagHandler_def)

lemma no_handler_does_not_throw:
  "lookupTag (tagConfigs cfg) (tag e) = None \<Longrightarrow> \<not> tagHandlerThrows cfg e"
  by (simp add: tagHandlerThrows_def)

lemma useRunner_success:
  assumes "self (s @ [SpanStarted span]) = (Success v, s')"
  shows "useRunner opts span self s =
           (Resolved v, onSuccessValue (toastifySuccess opts) v s' @ [SpanEnded span])"
  using assms
  by (simp add: useRunner_def runPromiseExit_def withSpan_def tapErrorCause_def tap_def
      tapError_def matchCauseEffect_def succeed_def settle_def Let_def)

lemma useRunner_interrupted:
  assumes "self (s @ [SpanStarted span]) = (Interrupted c ic, s')"
  shows "useRunner opts span self s =
           onFailure (case toastifyDefects opts of None \<Rightarrow> BoolVal True | Some d \<Rightarrow> d)
             (Sequential (stripFailures c) ic) (s' @ [SpanEnded span])"
  using assms
  by (simp add: useRunner_def runPromiseExit_def withSpan_def tapErrorCause_def tap_def
      tapError_def matchCauseEffect_def succeed_def settle_def Let_def)

lemma useRunner_failure:
  assumes "self (s @ [SpanStarted span]) = (Failure c, s')"
  shows "useRunner opts span self s =
           (let cfg = (case toastifyErrors opts of None \<Rightarrow> emptyConfig | Some cfg \<Rightarrow> cfg);
                final = (case failureOption c of
                           Some e \<Rightarrow> if tagHandlerThrows cfg e then Die TypeError else c
                         | None \<Rightarrow> c)
            in onFailure (case toastifyDefects opts of None \<Rightarrow> BoolVal True | Some d \<Rightarrow> d) final
                 (s' @ (case failureOption c of
                          Some e \<Rightarrow> snd (onTypedError cfg e [])
                        | None \<Rightarrow> [])
                   @ [LogError final, SpanEnded span]))"
proof (cases "failureOption c")
  case None
  with assms show ?thesis
    by (simp add: useRunner_def runPromiseExit_def withSpan_def tapErrorCause_def tap_def
        tapError_def matchCauseEffect_def succeed_def failCause_def zipRight_def logError_def
        settle_def Let_def)
next
  case (Some e)
  let ?cfg = "case toastifyErrors opts of None \<Rightarrow> emptyConfig | Some cfg \<Rightarrow> cfg"
  obtain r t where rt: "onTypedError ?cfg e s' = (r, t)"
    by (cases "onTypedError ?cfg e s'")
  have r: "r = (if tagHandlerThrows ?cfg e then Failure (Die TypeError) else Success ())"
    using onTypedError_fst [of ?cfg e s'] rt by simp
  have t: "t = s' @ snd (onTypedError ?cfg e [])"
    using onTypedError_snd [of ?cfg e s'] rt by simp
  from assms Some rt r t show ?thesis
    by (simp add: useRunner_def runPromiseExit_def withSpan_def tapErrorCause_def tap_def
        tapError_def matchCauseEffect_def succeed_def failCause_def zipRight_def logError_def
        settle_def Let_def)
qed

lemma onFailure_typed: "onFailure td (Fail e) s = (Rejected (TypedFailure e), s)"
  by (simp add: onFailure_def)

lemma onFailure_defect:
  assumes "\<not> isFailType c"
  shows "onFailure td c s =
           (Rejected (QueryDefect (squash c)),
            s @ (case td of
                   BoolVal False \<Rightarrow> []
                 | BoolVal True \<Rightarrow> [ToastError DEFAULT_DEFECT_MESSAGE]
                 | StringVal str \<Rightarrow> [ToastError str]))"
  using assms
  by (cases c; cases td) (auto simp add: onFailure_def toast_error_def Let_def)

lemma squash_Die: "squash (Die d) = SquashedDefect d"
  by (simp add: squash_def)

lemma squash_Interrupt: "squash (Interrupt f) = InterruptedException (ids f)"
  by (simp add: squash_def)

lemmas run_defs =
  useRunner_def runPromiseExit_def withSpan_def tapErrorCause_def tap_def tapError_def
  matchCauseEffect_def succeed_def failCause_def interruptedBy_def zipRight_def logError_def
  onTypedError_def sync_def settle_def onFailure_def onSuccessValue_def toast_error_def
  toast_error_object_def toast_success_def emptyConfig_def errorMessage_def hasStringMessage_def
  lookupTag_def callTagHandler_def objectPrototypeMembers_def tagHandlerThrows_def squash_def
  DEFAULT_ERROR_MESSAGE_def DEFAULT_DEFECT_MESSAGE_def Let_def

section \<open>Settling the promise on a failure\<close>

text \<open>
  Claim C1. A computation that completes with a typed failure \<open>e\<close> should reject the
  promise with \<open>e\<close> itself. The code does so unless the call of the tag handler
  throws (\<open>typed_failure_passthrough\<close> below), but a tag that names a member of
  \<^verbatim>\<open>Object.prototype\<close> finds that member as its handler. The theorem runs the bridge
  with the default options on a computation that fails with \<^verbatim>\<open>{ _tag: "__proto__" }\<close>:
  \<^verbatim>\<open>tagConfigs["__proto__"]\<close> is \<^verbatim>\<open>Object.prototype\<close>, calling it throws inside
  \<^verbatim>\<open>Effect.sync\<close>, the typed failure is replaced by that defect, and the promise
  rejects with a \<open>QueryDefect\<close> around the \<^verbatim>\<open>TypeError\<close> after the defect
  notification.
\<close>

theorem inherited_tag_rejects_with_QueryDefect:
  "useRunner \<lparr>toastifyDefects = None, toastifyErrors = None, toastifySuccess = None\<rparr>
     ''todos'' (failCause (Fail \<lparr>tag = ''__proto__'', props = []\<rparr>)) []
   = (Rejected (QueryDefect (SquashedDefect TypeError)) :: (int, EffectfulError) Settled,
      [SpanStarted ''todos'', LogError (Die TypeError), SpanEnded ''todos'',
       ToastError ''An unexpected error occurred''])"
  by (simp add: run_defs)

lemma typed_failure_passthrough:
  assumes "self (s @ [SpanStarted span]) = (Failure (Fail e), s')"
    and "\<not> tagHandlerThrows (case toastifyErrors opts of None \<Rightarrow> emptyConfig | Some cfg \<Rightarrow> cfg) e"
  shows "fst (useRunner opts span self s) = Rejected (TypedFailure e)"
  using assms(2)
  by (simp add: useRunner_failure [where self = self and s = s, OF assms(1)] onFailure_typed Let_def)




text \<open>
  Claim C8. Every failure cause that is not exactly one \<open>Fail\<close> node is classified as
  a defect, also a composite cause that holds a typed failure next to another cause: the
  promise rejects with a \<open>QueryDefect\<close> and with no typed failure, in particular not
  with the one the cause contains.
\<close>

theorem composite_cause_is_defect:
  assumes "self (s @ [SpanStarted span]) = (Failure c, s')"
    and "\<forall>e. c \<noteq> Fail e"
  shows "(\<exists>q. fst (useRunner opts span self s) = Rejected (QueryDefect q))
       \<and> (\<forall>e. fst (useRunner opts span self s) \<noteq> Rejected (TypedFailure e))"
proof -
  let ?cfg = "case toastifyErrors opts of None \<Rightarrow> emptyConfig | Some cfg \<Rightarrow> cfg"
  let ?final = "case failureOption c of
                  Some e \<Rightarrow> if tagHandlerThrows ?cfg e then Die TypeError else c
                | None \<Rightarrow> c"
  from assms(2) have "\<not> isFailType c"
    by (cases c) auto
  then have "\<not> isFailType ?final"
    by (simp split: option.splits)
  then have "fst (useRunner opts span self s) = Rejected (QueryDefect (squash ?final))"
    by (simp add: useRunner_failure [where self = self and s = s, OF assms(1)] onFailure_defect
        Let_def)
  then show ?thesis
    by simp
qed

theorem composite_cause_is_defect_witness:
  "failCause (Parallel (Fail \<lparr>tag = ''NotFound'', props = []\<rparr>) (Die (JSString ''crash'')))
       ([] @ [SpanStarted ''todos''])
     = (Failure (Parallel (Fail \<lparr>tag = ''NotFound'', props = []\<rparr>) (Die (JSString ''crash'')))
          :: (int, EffectfulError) Exit,
        [SpanStarted ''todos''])
   \<and> (\<forall>e. Parallel (Fail \<lparr>tag = ''NotFound'', props = []\<rparr>) (Die (JSString ''crash'')) \<noteq> Fail e)
   \<and> (\<exists>q. fst (useRunner
                  \<lparr>toastifyDefects = None, toastifyErrors = None,
                     toastifySuccess = None :: (int \<Rightarrow> string) option\<rparr>
                  ''todos''
                  (failCause
                     (Parallel (Fail \<lparr>tag = ''NotFound'', props = []\<rparr>) (Die (JSString ''crash''))))
                  [])
            = Rejected (QueryDefect q))
   \<and> fst (useRunner
            \<lparr>toastifyDefects = None, toastifyErrors = None,
               toastifySuccess = None :: (int \<Rightarrow> string) option\<rparr>
            ''todos''
            (failCause
               (Parallel (Fail \<lparr>tag = ''NotFound'', props = []\<rparr>) (Die (JSString ''crash''))))
            [])
       \<noteq> Rejected (TypedFailure \<lparr>tag = ''NotFound'', props = []\<rparr>)"
proof -
  let ?c = "Parallel (Fail \<lparr>tag = ''NotFound'', props = []\<rparr>) (Die (JSString ''crash''))"
  have run: "failCause ?c ([] @ [SpanStarted ''todos''])
     = (Failure ?c :: (int, EffectfulError) Exit, [SpanStarted ''todos''])"
    by (simp add: failCause_def)
  have composite: "\<forall>e. ?c \<noteq> Fail e"
    by simp
  show ?thesis
    using run composite
      composite_cause_is_defect
        [where self = "failCause ?c" and s = "[]"
           and opts = "\<lparr>toastifyDefects = None, toastifyErrors = None,
                           toastifySuccess = None :: (int \<Rightarrow> string) option\<rparr>",
         OF run composite]
    by blast
qed

section \<open>Notifications\<close>

text \<open>
  Claim C4. When the tag of a typed failure \<open>e\<close> has a handler \<open>h\<close> in
  \<^verbatim>\<open>toastifyErrors\<close>, the run calls \<^verbatim>\<open>toast.error\<close> exactly once, with \<open>h e\<close>,
  whatever \<^verbatim>\<open>orElse\<close> is: the events the run adds are that call, the log entry and the
  end of the span, and the promise rejects with \<open>e\<close>.
\<close>

theorem tag_handler_precedence:
  assumes "self (s @ [SpanStarted span]) = (Failure (Fail e), s')"
    and "toastifyErrors opts = Some cfg"
    and "tagConfigs cfg (tag e) = Some h"
  shows "useRunner opts span self s =
           (Rejected (TypedFailure e), s' @ [ToastError (h e), LogError (Fail e), SpanEnded span])"
  using caller_handler_does_not_throw [OF assms(3)]
  by (simp add: useRunner_failure [where self = self and s = s, OF assms(1)] onFailure_typed
      assms(2) onTypedError_handler [OF assms(3)] Let_def)

theorem tag_handler_precedence_witness:
  "failCause (Fail \<lparr>tag = ''NotFound'', props = []\<rparr>) ([] @ [SpanStarted ''todos''])
     = (Failure (Fail \<lparr>tag = ''NotFound'', props = []\<rparr>) :: (int, EffectfulError) Exit,
        [SpanStarted ''todos''])
   \<and> toastifyErrors
        \<lparr>toastifyDefects = None,
           toastifyErrors =
             Some \<lparr>orElse = Some (BoolVal True),
                    tagConfigs = [''NotFound'' \<mapsto> (\<lambda>error. ''Item missing'')]\<rparr>,
           toastifySuccess = None :: (int \<Rightarrow> string) option\<rparr>
     = Some \<lparr>orElse = Some (BoolVal True),
              tagConfigs = [''NotFound'' \<mapsto> (\<lambda>error. ''Item missing'')]\<rparr>
   \<and> tagConfigs
        \<lparr>orElse = Some (BoolVal True),
           tagConfigs = [''NotFound'' \<mapsto> (\<lambda>error. ''Item missing'')]\<rparr>
        (tag \<lparr>tag = ''NotFound'', props = []\<rparr>)
     = Some (\<lambda>error. ''Item missing'')
   \<and> useRunner
        \<lparr>toastifyDefects = None,
           toastifyErrors =
             Some \<lparr>orElse = Some (BoolVal True),
                    tagConfigs = [''NotFound'' \<mapsto> (\<lambda>error. ''Item missing'')]\<rparr>,
           toastifySuccess = None\<rparr>
        ''todos'' (failCause (Fail \<lparr>tag = ''NotFound'', props = []\<rparr>)) []
     = (Rejected (TypedFailure \<lparr>tag = ''NotFound'', props = []\<rparr>) :: (int, EffectfulError) Settled,
        [SpanStarted ''todos'', ToastError ''Item missing'',
         LogError (Fail \<lparr>tag = ''NotFound'', props = []\<rparr>), SpanEnded ''todos''])"
proof -
  let ?e = "\<lparr>tag = ''NotFound'', props = []\<rparr>"
  let ?cfg = "\<lparr>orElse = Some (BoolVal True),
                tagConfigs = [''NotFound'' \<mapsto> (\<lambda>error. ''Item missing'')]\<rparr>"
  let ?opts = "\<lparr>toastifyDefects = None, toastifyErrors = Some ?cfg,
                 toastifySuccess = None :: (int \<Rightarrow> string) option\<rparr>"
  have run: "failCause (Fail ?e) ([] @ [SpanStarted ''todos''])
     = (Failure (Fail ?e) :: (int, EffectfulError) Exit, [SpanStarted ''todos''])"
    by (simp add: failCause_def)
  have cfg: "toastifyErrors ?opts = Some ?cfg"
    by simp
  have handler: "tagConfigs ?cfg (tag ?e) = Some (\<lambda>error. ''Item missing'')"
    by simp
  show ?thesis
    using run cfg handler
      tag_handler_precedence
        [where self = "failCause (Fail ?e)" and s = "[]", OF run cfg handler]
    by simp
qed

text \<open>
  Claim C3. Under the default fallback \<^verbatim>\<open>orElse = "extractMessage"\<close>, a typed failure
  without a tag handler is notified once with its \<^verbatim>\<open>message\<close> when that is a string
  (\<open>extractMessage_with_message\<close> below), and is not notified at all when it has no
  string \<^verbatim>\<open>message\<close>. The code does not do the second: \<^verbatim>\<open>"extractMessage"\<close> is
  a string, so the branch \<^verbatim>\<open>typeof orElse === "string"\<close> is taken and the user is shown
  the text \<^verbatim>\<open>extractMessage\<close>. The theorem runs the bridge with the default options on a
  computation that fails with \<^verbatim>\<open>{ _tag: "X" }\<close>.
\<close>

theorem extractMessage_without_message_toasts_literal:
  "useRunner \<lparr>toastifyDefects = None, toastifyErrors = None, toastifySuccess = None\<rparr>
     ''todos'' (failCause (Fail \<lparr>tag = ''X'', props = []\<rparr>)) []
   = (Rejected (TypedFailure \<lparr>tag = ''X'', props = []\<rparr>) :: (int, EffectfulError) Settled,
      [SpanStarted ''todos'', ToastError ''extractMessage'',
       LogError (Fail \<lparr>tag = ''X'', props = []\<rparr>), SpanEnded ''todos''])"
  by (simp add: run_defs)

lemma extractMessage_with_message:
  assumes "self (s @ [SpanStarted span]) = (Failure (Fail e), s')"
    and "lookupTag (tagConfigs (case toastifyErrors opts of None \<Rightarrow> emptyConfig | Some cfg \<Rightarrow> cfg))
           (tag e) = None"
    and "orElse (case toastifyErrors opts of None \<Rightarrow> emptyConfig | Some cfg \<Rightarrow> cfg) = None
       \<or> orElse (case toastifyErrors opts of None \<Rightarrow> emptyConfig | Some cfg \<Rightarrow> cfg)
            = Some (StringVal ''extractMessage'')"
    and "errorMessage e = Some m"
  shows "useRunner opts span self s =
           (Rejected (TypedFailure e), s' @ [ToastError m, LogError (Fail e), SpanEnded span])"
  using assms(3,4) no_handler_does_not_throw [OF assms(2)]
  by (auto simp add: useRunner_failure [where self = self and s = s, OF assms(1)] onFailure_typed
      onTypedError_fallback [OF assms(2)] Let_def)

lemma extractMessage_without_message:
  assumes "self (s @ [SpanStarted span]) = (Failure (Fail e), s')"
    and "lookupTag (tagConfigs (case toastifyErrors opts of None \<Rightarrow> emptyConfig | Some cfg \<Rightarrow> cfg))
           (tag e) = None"
    and "orElse (case toastifyErrors opts of None \<Rightarrow> emptyConfig | Some cfg \<Rightarrow> cfg) = None
       \<or> orElse (case toastifyErrors opts of None \<Rightarrow> emptyConfig | Some cfg \<Rightarrow> cfg)
            = Some (StringVal ''extractMessage'')"
    and "errorMessage e = None"
  shows "useRunner opts span self s =
           (Rejected (TypedFailure e),
            s' @ [ToastError ''extractMessage'', LogError (Fail e), SpanEnded span])"
  using assms(3,4) no_handler_does_not_throw [OF assms(2)]
  by (auto simp add: useRunner_failure [where self = self and s = s, OF assms(1)] onFailure_typed
      onTypedError_fallback [OF assms(2)] Let_def)

text \<open>
  Claim C5, amended. On every defect outcome (a failure that is not a single typed
  failure, or an interrupted fiber) the promise rejects with a \<open>QueryDefect\<close>, and
  the notifications of the run are, in this order: what the typed-failure callback
  notifies for a typed failure that the cause contains, if it contains one and the fiber
  is not interrupted; then the defect notification as \<^verbatim>\<open>toastifyDefects\<close> says: none
  when it is \<^verbatim>\<open>false\<close>, the string when it is a string,
  \<^verbatim>\<open>An unexpected error occurred\<close> when it is \<^verbatim>\<open>true\<close> or left out. So when the
  cause holds no typed failure, \<^verbatim>\<open>toast.error\<close> is called exactly as
  \<^verbatim>\<open>toastifyDefects\<close> says.
\<close>

theorem defect_notification_policy:
  assumes "self (s @ [SpanStarted span]) = (exit, s')"
    and "isDefectOutcome exit"
  shows "(\<exists>q. fst (useRunner opts span self s) = Rejected (QueryDefect q))
       \<and> filter isNotification (snd (useRunner opts span self s)) =
           filter isNotification s'
             @ (case exit of
                  Failure c \<Rightarrow>
                    (case failureOption c of
                       Some e \<Rightarrow>
                         snd (onTypedError
                                (case toastifyErrors opts of None \<Rightarrow> emptyConfig | Some cfg \<Rightarrow> cfg)
                                e [])
                     | None \<Rightarrow> [])
                | _ \<Rightarrow> [])
             @ (case toastifyDefects opts of
                  Some (BoolVal False) \<Rightarrow> []
                | Some (StringVal str) \<Rightarrow> [ToastError str]
                | _ \<Rightarrow> [ToastError ''An unexpected error occurred''])"
proof (cases exit)
  case (Success v)
  with assms(2) show ?thesis by simp
next
  case (Failure c)
  let ?cfg = "case toastifyErrors opts of None \<Rightarrow> emptyConfig | Some cfg \<Rightarrow> cfg"
  let ?final = "case failureOption c of
                  Some e \<Rightarrow> if tagHandlerThrows ?cfg e then Die TypeError else c
                | None \<Rightarrow> c"
  let ?pre = "case failureOption c of Some e \<Rightarrow> snd (onTypedError ?cfg e []) | None \<Rightarrow> []"
  from assms(2) Failure have "\<not> isFailType ?final"
    by (simp split: option.splits)
  then have run: "useRunner opts span self s =
      (Rejected (QueryDefect (squash ?final)),
       (s' @ ?pre @ [LogError ?final, SpanEnded span])
         @ (case (case toastifyDefects opts of None \<Rightarrow> BoolVal True | Some d \<Rightarrow> d) of
              BoolVal False \<Rightarrow> []
            | BoolVal True \<Rightarrow> [ToastError DEFAULT_DEFECT_MESSAGE]
            | StringVal str \<Rightarrow> [ToastError str]))"
    using assms(1) Failure
    by (simp add: useRunner_failure [where self = self and s = s] onFailure_defect Let_def)
  have pre: "filter isNotification ?pre = ?pre"
    using onTypedError_notifications [of ?cfg]
    by (simp add: list_all_iff split: option.splits)
  show ?thesis
    unfolding run using Failure pre
    by (simp add: DEFAULT_DEFECT_MESSAGE_def split: option.splits BoolOrString.splits bool.splits)
next
  case (Interrupted c ic)
  have "\<not> isFailType (Sequential (stripFailures c) ic)"
    by simp
  then have run: "useRunner opts span self s =
      (Rejected (QueryDefect (squash (Sequential (stripFailures c) ic))),
       (s' @ [SpanEnded span])
         @ (case (case toastifyDefects opts of None \<Rightarrow> BoolVal True | Some d \<Rightarrow> d) of
              BoolVal False \<Rightarrow> []
            | BoolVal True \<Rightarrow> [ToastError DEFAULT_DEFECT_MESSAGE]
            | StringVal str \<Rightarrow> [ToastError str]))"
    using assms(1) Interrupted
    by (simp add: useRunner_interrupted [where self = self and s = s] onFailure_defect)
  show ?thesis
    unfolding run using Interrupted
    by (simp add: DEFAULT_DEFECT_MESSAGE_def split: option.splits BoolOrString.splits bool.splits)
qed

theorem defect_notification_policy_witness:
  "failCause (Die (JSString ''crash'')) ([] @ [SpanStarted ''todos''])
     = (Failure (Die (JSString ''crash'')) :: (int, EffectfulError) Exit, [SpanStarted ''todos''])
   \<and> isDefectOutcome (Failure (Die (JSString ''crash'')) :: (int, EffectfulError) Exit)
   \<and> (\<exists>q. fst (useRunner
                  \<lparr>toastifyDefects = Some (StringVal ''Server is down''), toastifyErrors = None,
                     toastifySuccess = None :: (int \<Rightarrow> string) option\<rparr>
                  ''todos'' (failCause (Die (JSString ''crash''))) [])
            = Rejected (QueryDefect q))
   \<and> filter isNotification
        (snd (useRunner
                \<lparr>toastifyDefects = Some (StringVal ''Server is down''), toastifyErrors = None,
                   toastifySuccess = None :: (int \<Rightarrow> string) option\<rparr>
                ''todos'' (failCause (Die (JSString ''crash''))) []))
     = [ToastError ''Server is down'']"
proof -
  have run: "failCause (Die (JSString ''crash'')) ([] @ [SpanStarted ''todos''])
     = (Failure (Die (JSString ''crash'')) :: (int, EffectfulError) Exit, [SpanStarted ''todos''])"
    by (simp add: failCause_def)
  have defect: "isDefectOutcome (Failure (Die (JSString ''crash'')) :: (int, EffectfulError) Exit)"
    by simp
  show ?thesis
    using run defect
      defect_notification_policy
        [where self = "failCause (Die (JSString ''crash''))" and s = "[]"
           and opts = "\<lparr>toastifyDefects = Some (StringVal ''Server is down''),
                           toastifyErrors = None,
                           toastifySuccess = None :: (int \<Rightarrow> string) option\<rparr>",
         OF run defect]
    by simp
qed

text \<open>
  Claim C5 as stated, for every defect outcome, fails on a composite cause that holds a
  typed failure: \<^verbatim>\<open>Effect.tapError\<close> finds the typed failure inside the cause and the
  fallback notifies its message, although \<^verbatim>\<open>toastifyDefects\<close> is \<^verbatim>\<open>false\<close> and the
  promise rejects with a \<open>QueryDefect\<close>.
\<close>

theorem defect_suppression_counterexample:
  "fst (useRunner
          \<lparr>toastifyDefects = Some (BoolVal False), toastifyErrors = None, toastifySuccess = None\<rparr>
          ''todos''
          (failCause
             (Parallel (Fail \<lparr>tag = ''X'', props = [(''message'', JSString ''boom'')]\<rparr>)
                       (Die (JSString ''crash''))))
          [])
     = (Rejected (QueryDefect
          (SquashedError \<lparr>tag = ''X'', props = [(''message'', JSString ''boom'')]\<rparr>))
        :: (int, EffectfulError) Settled)
   \<and> filter isNotification
        (snd (useRunner
                \<lparr>toastifyDefects = Some (BoolVal False), toastifyErrors = None,
                   toastifySuccess = None :: (int \<Rightarrow> string) option\<rparr>
                ''todos''
                (failCause
                   (Parallel (Fail \<lparr>tag = ''X'', props = [(''message'', JSString ''boom'')]\<rparr>)
                             (Die (JSString ''crash''))))
                []))
     = [ToastError ''boom'']"
  by (simp add: run_defs)

text \<open>
  Claim C7. On a success with value \<open>v\<close> the promise resolves with \<open>v\<close>. When
  \<^verbatim>\<open>toastifySuccess\<close> is supplied, \<^verbatim>\<open>toast.success\<close> is called exactly once, with
  \<^verbatim>\<open>toastifySuccess(v)\<close>; when it is not, the run adds no notification.
\<close>

theorem success_notification:
  assumes "self (s @ [SpanStarted span]) = (Success v, s')"
  shows "useRunner opts span self s =
           (Resolved v,
            s' @ (case toastifySuccess opts of
                    Some f \<Rightarrow> [ToastSuccess (f v)]
                  | None \<Rightarrow> [])
               @ [SpanEnded span])"
  by (simp add: useRunner_success [where self = self and s = s, OF assms]
      onSuccessValue_def toast_success_def split: option.splits)

theorem success_notification_witness:
  "succeed ''5'' ([] @ [SpanStarted ''todos''])
     = (Success ''5'' :: (string, EffectfulError) Exit, [SpanStarted ''todos''])
   \<and> useRunner
        \<lparr>toastifyDefects = None, toastifyErrors = None, toastifySuccess = Some (append ''ok:'')\<rparr>
        ''todos'' (succeed ''5'') []
     = (Resolved ''5'', [SpanStarted ''todos'', ToastSuccess ''ok:5'', SpanEnded ''todos''])"
proof -
  have run: "succeed ''5'' ([] @ [SpanStarted ''todos''])
     = (Success ''5'' :: (string, EffectfulError) Exit, [SpanStarted ''todos''])"
    by (simp add: succeed_def)
  show ?thesis
    using run
      success_notification
        [where self = "succeed ''5''" and s = "[]"
           and opts = "\<lparr>toastifyDefects = None, toastifyErrors = None,
                           toastifySuccess = Some (append ''ok:'')\<rparr>",
         OF run]
    by simp
qed

section \<open>Logging\<close>

text \<open>
  Claim C6, amended. A failure in a fiber that has not been interrupted, typed failure or
  defect, is logged exactly once, whatever the notification options are, inside the span
  and so before the promise settles and before the defect notification. What is logged is
  the cause the computation failed with (the \<^verbatim>\<open>TypeError\<close> defect instead, if the tag
  handler call threw). What precedes the log entry are notifications only: the one for a
  typed failure is fired before the log. A success adds no log entry, and neither does
  the failure of an interrupted fiber.
\<close>

theorem failure_logged_before_settling:
  assumes "self (s @ [SpanStarted span]) = (exit, s')"
  shows "\<exists>pre. list_all isNotification pre
           \<and> snd (useRunner opts span self s) =
               (let cfg = (case toastifyErrors opts of None \<Rightarrow> emptyConfig | Some cfg \<Rightarrow> cfg);
                    final = (\<lambda>c. case failureOption c of
                                    Some e \<Rightarrow> if tagHandlerThrows cfg e then Die TypeError else c
                                  | None \<Rightarrow> c);
                    defectNotification =
                      (case toastifyDefects opts of
                         Some (BoolVal False) \<Rightarrow> []
                       | Some (StringVal str) \<Rightarrow> [ToastError str]
                       | _ \<Rightarrow> [ToastError DEFAULT_DEFECT_MESSAGE])
                in s' @ pre
                     @ (case exit of Failure c \<Rightarrow> [LogError (final c)] | _ \<Rightarrow> [])
                     @ [SpanEnded span]
                     @ (case exit of
                          Success v \<Rightarrow> []
                        | Failure c \<Rightarrow> if isFailType (final c) then [] else defectNotification
                        | Interrupted c ic \<Rightarrow> defectNotification))"
proof (cases exit)
  case (Success v)
  with assms have "snd (useRunner opts span self s) =
      s' @ (case toastifySuccess opts of Some f \<Rightarrow> [ToastSuccess (f v)] | None \<Rightarrow> [])
         @ [SpanEnded span]"
    by (simp add: useRunner_success [where self = self and s = s]
        onSuccessValue_def toast_success_def split: option.splits)
  moreover have "list_all isNotification
      (case toastifySuccess opts of Some f \<Rightarrow> [ToastSuccess (f v)] | None \<Rightarrow> [])"
    by (simp split: option.splits)
  ultimately show ?thesis
    using Success by (auto simp add: Let_def)
next
  case (Failure c)
  let ?cfg = "case toastifyErrors opts of None \<Rightarrow> emptyConfig | Some cfg \<Rightarrow> cfg"
  let ?final = "case failureOption c of
                  Some e \<Rightarrow> if tagHandlerThrows ?cfg e then Die TypeError else c
                | None \<Rightarrow> c"
  let ?pre = "case failureOption c of Some e \<Rightarrow> snd (onTypedError ?cfg e []) | None \<Rightarrow> []"
  have pre: "list_all isNotification ?pre"
    using onTypedError_notifications [of ?cfg] by (simp split: option.splits)
  have run: "useRunner opts span self s =
      onFailure (case toastifyDefects opts of None \<Rightarrow> BoolVal True | Some d \<Rightarrow> d) ?final
        (s' @ ?pre @ [LogError ?final, SpanEnded span])"
    using assms Failure
    by (simp add: useRunner_failure [where self = self and s = s] Let_def)
  show ?thesis
  proof (cases "isFailType ?final")
    case True
    then obtain e where "?final = Fail e"
      using isFailType_failureOption by blast
    with run Failure pre True show ?thesis
      by (auto simp add: onFailure_typed Let_def)
  next
    case False
    with run Failure pre show ?thesis
      by (auto simp add: onFailure_defect Let_def
          split: option.splits BoolOrString.splits bool.splits)
  qed
next
  case (Interrupted c ic)
  have "\<not> isFailType (Sequential (stripFailures c) ic)"
    by simp
  with assms Interrupted show ?thesis
    by (auto simp add: useRunner_interrupted [where self = self and s = s] onFailure_defect Let_def
        split: option.splits BoolOrString.splits bool.splits)
qed

theorem failure_logged_before_settling_witness:
  "failCause (Die (JSString ''crash'')) ([] @ [SpanStarted ''todos''])
     = (Failure (Die (JSString ''crash'')) :: (int, EffectfulError) Exit, [SpanStarted ''todos''])
   \<and> (\<exists>pre. list_all isNotification pre
         \<and> snd (useRunner
                  \<lparr>toastifyDefects = None, toastifyErrors = None,
                     toastifySuccess = None :: (int \<Rightarrow> string) option\<rparr>
                  ''todos'' (failCause (Die (JSString ''crash''))) [])
           = [SpanStarted ''todos''] @ pre
               @ [LogError (Die (JSString ''crash'')), SpanEnded ''todos'',
                  ToastError ''An unexpected error occurred''])"
proof -
  have run: "failCause (Die (JSString ''crash'')) ([] @ [SpanStarted ''todos''])
     = (Failure (Die (JSString ''crash'')) :: (int, EffectfulError) Exit, [SpanStarted ''todos''])"
    by (simp add: failCause_def)
  show ?thesis
    using run
      failure_logged_before_settling
        [where self = "failCause (Die (JSString ''crash''))" and s = "[]"
           and opts = "\<lparr>toastifyDefects = None, toastifyErrors = None,
                           toastifySuccess = None :: (int \<Rightarrow> string) option\<rparr>",
         OF run]
    by (simp add: DEFAULT_DEFECT_MESSAGE_def Let_def)
qed

text \<open>
  Claim C6 as stated fails three times. A success is not logged:
  \<^verbatim>\<open>Effect.tapErrorCause\<close> observes failures only, while the success notification does
  fire. On a typed failure the notification comes before the log entry, not after it. And
  when the fiber is interrupted nothing is logged at all, while the defect notification
  still fires.
\<close>

theorem success_not_logged_counterexample:
  "snd (useRunner
          \<lparr>toastifyDefects = None, toastifyErrors = None, toastifySuccess = Some (append ''ok:'')\<rparr>
          ''todos'' (succeed ''5'') [])
     = [SpanStarted ''todos'', ToastSuccess ''ok:5'', SpanEnded ''todos'']
   \<and> snd (useRunner
            \<lparr>toastifyDefects = None, toastifyErrors = None,
               toastifySuccess = None :: (int \<Rightarrow> string) option\<rparr>
            ''todos''
            (failCause (Fail \<lparr>tag = ''Unknown'', props = [(''message'', JSString ''db down'')]\<rparr>))
            [])
     = [SpanStarted ''todos'', ToastError ''db down'',
        LogError (Fail \<lparr>tag = ''Unknown'', props = [(''message'', JSString ''db down'')]\<rparr>),
        SpanEnded ''todos'']
   \<and> snd (useRunner
            \<lparr>toastifyDefects = None, toastifyErrors = None,
               toastifySuccess = None :: (int \<Rightarrow> string) option\<rparr>
            ''todos'' (interruptedBy (FiberRuntime 7)) [])
     = [SpanStarted ''todos'', SpanEnded ''todos'', ToastError ''An unexpected error occurred'']"
  by (simp add: run_defs)

section \<open>The skip sentinel\<close>

text \<open>
  Claim C9. When \<^verbatim>\<open>useEffectQuery\<close> is given \<^verbatim>\<open>skipToken\<close> as its \<^verbatim>\<open>queryFn\<close>,
  the options it hands to the fetching library carry \<^verbatim>\<open>skipToken\<close> itself, and a
  fetch attempt on them calls nothing: no computation is built or run and the trace,
  notifications included, stays as it was.
\<close>

theorem skip_token_forwarded:
  assumes "queryFn options = skipToken"
  shows "queryFn (useEffectQuery toMillis options) = skipToken
       \<and> fetchAttempt (useEffectQuery toMillis options) ctx s = (None, s)"
  using assms by (simp add: useEffectQuery_def fetchAttempt_def Let_def)

theorem skip_token_forwarded_witness:
  "queryFn
     (\<lparr>toastifyDefects = None, toastifyErrors = None, toastifySuccess = None,
        queryKey = (''todos'', ()), queryFn = skipToken, staleTime = Some 5, gcTime = None,
        throwOnError = True, passThrough = ()\<rparr>
      :: (string, unit, unit \<Rightarrow> (string, EffectfulError) Effect, nat, bool, unit) QueryOptions)
     = skipToken
   \<and> queryFn
        (useEffectQuery (\<lambda>seconds. seconds * 1000)
           (\<lparr>toastifyDefects = None, toastifyErrors = None, toastifySuccess = None,
              queryKey = (''todos'', ()), queryFn = skipToken, staleTime = Some 5, gcTime = None,
              throwOnError = True, passThrough = ()\<rparr>
            :: (string, unit, unit \<Rightarrow> (string, EffectfulError) Effect, nat, bool, unit) QueryOptions))
     = skipToken
   \<and> fetchAttempt
        (useEffectQuery (\<lambda>seconds. seconds * 1000)
           (\<lparr>toastifyDefects = None, toastifyErrors = None, toastifySuccess = None,
              queryKey = (''todos'', ()), queryFn = skipToken, staleTime = Some 5, gcTime = None,
              throwOnError = True, passThrough = ()\<rparr>
            :: (string, unit, unit \<Rightarrow> (string, EffectfulError) Effect, nat, bool, unit) QueryOptions))
        () []
     = (None, [])"
proof -
  let ?options = "\<lparr>toastifyDefects = None, toastifyErrors = None, toastifySuccess = None,
        queryKey = (''todos'', ()), queryFn = skipToken, staleTime = Some 5, gcTime = None,
        throwOnError = True, passThrough = ()\<rparr>
      :: (string, unit, unit \<Rightarrow> (string, EffectfulError) Effect, nat, bool, unit) QueryOptions"
  have skip: "queryFn ?options = skipToken"
    by simp
  show ?thesis
    using skip
      skip_token_forwarded
        [where options = "?options" and toMillis = "\<lambda>seconds. seconds * 1000"
           and ctx = "()" and s = "[]", OF skip]
    by simp
qed

text \<open>
  Claim C10. \<^verbatim>\<open>useEffectInfiniteQuery\<close> treats \<^verbatim>\<open>skipToken\<close> as the single-fetch
  adapter does: it is handed on as it is, and a page fetch on the forwarded options
  builds and runs no computation.
\<close>

theorem infinite_skip_token_forwarded:
  assumes "queryFn options = skipToken"
  shows "queryFn (useEffectInfiniteQuery toMillis options) = skipToken
       \<and> fetchAttempt (useEffectInfiniteQuery toMillis options) ctx s = (None, s)"
  using assms by (simp add: useEffectInfiniteQuery_def fetchAttempt_def Let_def)

theorem infinite_skip_token_forwarded_witness:
  "queryFn
     (\<lparr>toastifyDefects = None, toastifyErrors = None, toastifySuccess = None,
        queryKey = (''feed'', ()), queryFn = skipToken, staleTime = None, gcTime = Some 60,
        throwOnError = True, passThrough = (),
        getNextPageParam = Suc, getPreviousPageParam = None, initialPageParam = 0\<rparr>
      :: (string, unit, nat \<Rightarrow> (string, EffectfulError) Effect, nat, bool, unit,
          nat, nat \<Rightarrow> nat, nat \<Rightarrow> nat) InfiniteQueryOptions)
     = skipToken
   \<and> queryFn
        (useEffectInfiniteQuery (\<lambda>seconds. seconds * 1000)
           (\<lparr>toastifyDefects = None, toastifyErrors = None, toastifySuccess = None,
              queryKey = (''feed'', ()), queryFn = skipToken, staleTime = None, gcTime = Some 60,
              throwOnError = True, passThrough = (),
              getNextPageParam = Suc, getPreviousPageParam = None, initialPageParam = 0\<rparr>
            :: (string, unit, nat \<Rightarrow> (string, EffectfulError) Effect, nat, bool, unit,
                nat, nat \<Rightarrow> nat, nat \<Rightarrow> nat) InfiniteQueryOptions))
     = skipToken
   \<and> fetchAttempt
        (useEffectInfiniteQuery (\<lambda>seconds. seconds * 1000)
           (\<lparr>toastifyDefects = None, toastifyErrors = None, toastifySuccess = None,
              queryKey = (''feed'', ()), queryFn = skipToken, staleTime = None, gcTime = Some 60,
              throwOnError = True, passThrough = (),
              getNextPageParam = Suc, getPreviousPageParam = None, initialPageParam = 0\<rparr>
            :: (string, unit, nat \<Rightarrow> (string, EffectfulError) Effect, nat, bool, unit,
                nat, nat \<Rightarrow> nat, nat \<Rightarrow> nat) InfiniteQueryOptions))
        0 []
     = (None, [])"
proof -
  let ?options = "\<lparr>toastifyDefects = None, toastifyErrors = None, toastifySuccess = None,
        queryKey = (''feed'', ()), queryFn = skipToken, staleTime = None, gcTime = Some 60,
        throwOnError = True, passThrough = (),
        getNextPageParam = Suc, getPreviousPageParam = None, initialPageParam = 0\<rparr>
      :: (string, unit, nat \<Rightarrow> (string, EffectfulError) Effect, nat, bool, unit,
          nat, nat \<Rightarrow> nat, nat \<Rightarrow> nat) InfiniteQueryOptions"
  have skip: "queryFn ?options = skipToken"
    by simp
  show ?thesis
    using skip
      infinite_skip_token_forwarded
        [where options = "?options" and toMillis = "\<lambda>seconds. seconds * 1000"
           and ctx = 0 and s = "[]", OF skip]
    by simp
qed

end
